theory Spec2Isabelle
  imports Main
begin

section \<open>Declaration checking: the data model\<close>

text \<open>
  A shallow embedding of \<^verbatim>\<open>lib/Sema/TypeCheckDecl.cpp\<close>. Declarations, types, patterns
  and expressions are the values the checker reads and writes; every mutation of the source is
  explicit state passing, every failed \<^verbatim>\<open>assert\<close>, \<^verbatim>\<open>castTo\<close> or null dereference is an
  \<open>error\<close> value, and the collaborators that live in other files (type validation, pattern
  and expression checking, constructor lookup, conformance checking) are function parameters.
  Source locations are not part of the model.
\<close>

type_synonym Identifier = string

datatype error = AssertionFailed | NullDereference | Unreachable

text \<open>\<^verbatim>\<open>Ownership\<close>: the diagnostics expect 0 for unowned and 1 for weak.\<close>

datatype ownership = Unowned | Weak

text \<open>
  Types, one constructor per \<^verbatim>\<open>TypeKind\<close> the checker distinguishes. Types are kept in
  canonical form, so \<^verbatim>\<open>getCanonicalType\<close> is the identity and the sugared kinds do not occur;
  \<open>ErrorType\<close> and \<open>TypeVariableType\<close> are the unchecked kinds. A tuple field carries its
  name (empty when unnamed), its type and whether it has a default initializer.
\<close>

datatype ty =
    ArchetypeType Identifier
  | BoundGenericStructType Identifier "ty list"
  | BoundGenericUnionType Identifier "ty list"
  | UnionType Identifier
  | StructType Identifier
  | ArrayType ty nat
  | BoundGenericClassType Identifier "ty list"
  | ClassType Identifier
  | ProtocolType Identifier
  | ProtocolCompositionType "Identifier list"
  | BuiltinFloatType
  | BuiltinIntegerType nat
  | BuiltinObjCPointerType
  | BuiltinObjectPointerType
  | BuiltinRawPointerType
  | BuiltinVectorType ty nat
  | TupleType "tuple_type_elt list"
  | FunctionType ty ty
  | LValueType ty
  | PolymorphicFunctionType ty ty
  | MetaTypeType ty
  | ModuleType Identifier
  | ReferenceStorageType ty ownership
  | ErrorType
  | TypeVariableType nat
and tuple_type_elt =
    TupleTypeElt (elt_name: Identifier) (elt_type: ty) (elt_hasInit: bool)

datatype expr =
    ZeroValueExpr ty
  | TupleExpr "expr list" "Identifier list"
  | MetatypeExpr ty
  | CallExpr expr expr
  | OtherExpr nat

text \<open>
  A \<^verbatim>\<open>TypeLoc\<close>: the type reference as written, and the type it resolved to (null until
  validated). \<^verbatim>\<open>TypeLoc::withoutLoc\<close> wraps a type that was never written.
\<close>

record typeloc =
  tl_repr :: Identifier
  tl_type :: "ty option"

definition withoutLoc :: "ty \<Rightarrow> typeloc" where
  "withoutLoc t = \<lparr>tl_repr = [], tl_type = Some t\<rparr>"

definition setInvalidType :: "typeloc \<Rightarrow> typeloc" where
  "setInvalidType loc = loc\<lparr>tl_type := Some ErrorType\<rparr>"

text \<open>\<^verbatim>\<open>DeclAttributes\<close>: one field per attribute the validator reads or clears.\<close>

record decl_attributes =
  ObjC :: bool
  Ownership :: "ownership option"
  IBOutlet :: bool
  IBAction :: bool
  ExplicitInfix :: bool
  ExplicitPostfix :: bool
  ExplicitPrefix :: bool
  Assignment :: bool
  Conversion :: bool
  ForceInline :: bool
  Byref :: bool
  AutoClosure :: bool
  ObjCBlock :: bool
  ClassProtocol :: bool
  cc :: "nat option"
  Thin :: bool
  NoReturn :: bool

definition noAttributes :: decl_attributes where
  "noAttributes = \<lparr>ObjC = False, Ownership = None, IBOutlet = False, IBAction = False,
     ExplicitInfix = False, ExplicitPostfix = False, ExplicitPrefix = False,
     Assignment = False, Conversion = False, ForceInline = False, Byref = False,
     AutoClosure = False, ObjCBlock = False, ClassProtocol = False, cc = None,
     Thin = False, NoReturn = False\<rparr>"


datatype decl_kind =
    ImportDeclKind | ExtensionDeclKind | PatternBindingDeclKind | TopLevelCodeDeclKind
  | TypeAliasDeclKind | UnionDeclKind | StructDeclKind | ClassDeclKind | ProtocolDeclKind
  | VarDeclKind | FuncDeclKind | UnionElementDeclKind | SubscriptDeclKind
  | ConstructorDeclKind | DestructorDeclKind

text \<open>
  A \<^verbatim>\<open>DeclContext\<close>, as far as the checker asks about it: whether it is a type or the
  module, the kind of the declaration that is the context (if it is one), the type that
  context declares (null outside a type), and whether the context has generic parameters.
\<close>

record decl_context =
  dc_isTypeContext :: bool
  dc_isModuleContext :: bool
  dc_declKind :: "decl_kind option"
  dc_declaredType :: "ty option"
  dc_hasGenericParams :: bool

text \<open>
  A \<^verbatim>\<open>ValueDecl\<close>. The flds after \<open>vd_isObjC\<close> are the answers of the declaration's own
  queries (\<^verbatim>\<open>isProperty\<close>, \<^verbatim>\<open>isOperator\<close>, \<^verbatim>\<open>isStatic\<close>, ...), which the AST library
  computes from parts of the declaration that the checker does not otherwise look at.
\<close>

record value_decl =
  vd_kind :: decl_kind
  vd_name :: Identifier
  vd_type :: "ty option"
  vd_attrs :: decl_attributes
  vd_context :: decl_context
  vd_isObjC :: bool
  vd_isProperty :: bool
  vd_isOperator :: bool
  vd_isUnaryOperator :: bool
  vd_isBinaryOperator :: bool
  vd_isStatic :: bool
  vd_isGetterOrSetter :: bool
  vd_isInstanceMember :: bool
  vd_requiresClass :: bool
  vd_numParamPatterns :: nat
  vd_hasGenericParams :: bool

text \<open>
  A value declaration as its constructor in the AST library leaves it: no attribute, and every
  query answers no.
\<close>

definition newDecl :: "decl_kind \<Rightarrow> Identifier \<Rightarrow> ty option \<Rightarrow> decl_context \<Rightarrow> value_decl" where
  "newDecl k n t dc = \<lparr>vd_kind = k, vd_name = n, vd_type = t, vd_attrs = noAttributes,
     vd_context = dc, vd_isObjC = False, vd_isProperty = False, vd_isOperator = False,
     vd_isUnaryOperator = False, vd_isBinaryOperator = False, vd_isStatic = False,
     vd_isGetterOrSetter = False, vd_isInstanceMember = False, vd_requiresClass = False,
     vd_numParamPatterns = 0, vd_hasGenericParams = False\<rparr>"

text \<open>
  Patterns. Every node carries the type the pattern checker gave it (null before).
\<close>

datatype pattern =
    TuplePattern "ty option" "tuple_pattern_elt list"
  | ParenPattern "ty option" pattern
  | TypedPattern "ty option" pattern typeloc
  | NominalTypePattern "ty option" pattern
  | UnionElementPattern "ty option" "pattern option"
  | VarPattern "ty option" pattern
  | NamedPattern "ty option" value_decl
  | AnyPattern "ty option"
  | IsaPattern "ty option"
  | ExprPattern "ty option"
and tuple_pattern_elt =
    TuplePatternElt (elt_pattern: pattern) (elt_init: "expr option")

fun getType :: "pattern \<Rightarrow> ty option" where
  "getType (TuplePattern t _) = t"
| "getType (ParenPattern t _) = t"
| "getType (TypedPattern t _ _) = t"
| "getType (NominalTypePattern t _) = t"
| "getType (UnionElementPattern t _) = t"
| "getType (VarPattern t _) = t"
| "getType (NamedPattern t _) = t"
| "getType (AnyPattern t) = t"
| "getType (IsaPattern t) = t"
| "getType (ExprPattern t) = t"

text \<open>
  A \<^verbatim>\<open>ConstructorDecl\<close> is a value declaration with an argument pattern, the implicit
  \<^verbatim>\<open>this\<close> variable, an optional body (the statements of a brace statement), the implicit
  mark and the initializer type.
\<close>

record constructor_decl = value_decl +
  ctor_arguments :: pattern
  ctor_implicitThis :: value_decl
  ctor_body :: "expr list option"
  ctor_implicit :: bool
  ctor_initializerType :: "ty option"

record pattern_binding_decl =
  pbd_pattern :: pattern
  pbd_init :: "expr option"
  pbd_context :: decl_context
  pbd_invalid :: bool

text \<open>The declarations the checker tells apart among the members of a struct or a lookup result.\<close>

datatype decl =
    VarDecl value_decl
  | FuncDecl value_decl
  | PatternBindingDecl pattern_binding_decl
  | ConstructorDecl constructor_decl
  | OtherDecl decl_kind

section \<open>Default initializability\<close>

text \<open>
  \<^verbatim>\<open>ConstructorDecl::getArgumentType\<close> is the type of the argument pattern.
\<close>

definition getArgumentType :: "constructor_decl \<Rightarrow> ty option" where
  "getArgumentType ctor = getType (ctor_arguments ctor)"

text \<open>
  The loop of \<^verbatim>\<open>isDefaultInitializable\<close> over the constructors found by lookup, with the
  flag \<^verbatim>\<open>foundDefaultConstructor\<close> as accumulator. \<open>None\<close> is the \<^verbatim>\<open>return false\<close> inside
  the loop (a second constructor that can be called with an empty tuple); reading the argument
  type of a constructor whose pattern has no type yet dereferences null.
\<close>

fun findDefaultConstructor :: "decl list \<Rightarrow> bool \<Rightarrow> error + bool option" where
  "findDefaultConstructor [] foundDefaultConstructor = Inr (Some foundDefaultConstructor)"
| "findDefaultConstructor (ConstructorDecl ctor # members) foundDefaultConstructor =
     (case getArgumentType ctor of
        None \<Rightarrow> Inl NullDereference
      | Some (TupleType flds) \<Rightarrow>
          if list_ex (\<lambda>elt. \<not> elt_hasInit elt) flds
          then findDefaultConstructor members foundDefaultConstructor
          else if foundDefaultConstructor then Inr None
          else findDefaultConstructor members True
      | Some _ \<Rightarrow> findDefaultConstructor members foundDefaultConstructor)"
| "findDefaultConstructor (_ # members) foundDefaultConstructor =
     findDefaultConstructor members foundDefaultConstructor"

text \<open>
  The part of \<^verbatim>\<open>isDefaultInitializable\<close> after the switch: look for a default constructor.
  \<open>lookupConstructors\<close> is the name lookup of the type checker; an empty result converts to
  false. The flag \<open>initializer\<close> says whether the caller passed a place for the initializer
  expression; the second component of the result is what is stored there.
\<close>

definition lookForDefaultConstructor ::
  "(ty \<Rightarrow> decl list) \<Rightarrow> ty \<Rightarrow> bool \<Rightarrow> error + (bool \<times> expr option)" where
  "lookForDefaultConstructor lookupConstructors t initializer =
     (let ctors = lookupConstructors t in
      if ctors = [] then Inr (False, None)
      else case findDefaultConstructor ctors False of
             Inl e \<Rightarrow> Inl e
           | Inr None \<Rightarrow> Inr (False, None)
           | Inr (Some foundDefaultConstructor) \<Rightarrow>
               if \<not> foundDefaultConstructor \<or> \<not> initializer
               then Inr (foundDefaultConstructor, None)
               else Inr (True, Some (CallExpr (MetatypeExpr (MetaTypeType t)) (TupleExpr [] []))))"

text \<open>
  \<^verbatim>\<open>TypeChecker::isDefaultInitializable\<close>, one equation per group of cases of the switch,
  and \<open>defaultInitializeFields\<close>, the loop of the tuple case with \<^verbatim>\<open>eltInits\<close> and
  \<^verbatim>\<open>eltNames\<close> as accumulators (its first component is false when the loop returned false).
\<close>

fun isDefaultInitializable ::
    "(ty \<Rightarrow> decl list) \<Rightarrow> ty \<Rightarrow> bool \<Rightarrow> error + (bool \<times> expr option)"
and defaultInitializeFields ::
    "(ty \<Rightarrow> decl list) \<Rightarrow> tuple_type_elt list \<Rightarrow> bool \<Rightarrow> expr list \<Rightarrow> Identifier list
      \<Rightarrow> error + (bool \<times> expr list \<times> Identifier list)" where
  "isDefaultInitializable L (ArchetypeType n) initializer =
     lookForDefaultConstructor L (ArchetypeType n) initializer"
| "isDefaultInitializable L (BoundGenericStructType n args) initializer =
     lookForDefaultConstructor L (BoundGenericStructType n args) initializer"
| "isDefaultInitializable L (BoundGenericUnionType n args) initializer =
     lookForDefaultConstructor L (BoundGenericUnionType n args) initializer"
| "isDefaultInitializable L (UnionType n) initializer =
     lookForDefaultConstructor L (UnionType n) initializer"
| "isDefaultInitializable L (StructType n) initializer =
     lookForDefaultConstructor L (StructType n) initializer"
| "isDefaultInitializable L (ArrayType t n) initializer = Inr (False, None)"
| "isDefaultInitializable L (BoundGenericClassType n args) initializer =
     Inr (True, if initializer then Some (ZeroValueExpr (BoundGenericClassType n args)) else None)"
| "isDefaultInitializable L (ClassType n) initializer =
     Inr (True, if initializer then Some (ZeroValueExpr (ClassType n)) else None)"
| "isDefaultInitializable L (ProtocolType n) initializer = Inr (False, None)"
| "isDefaultInitializable L (ProtocolCompositionType ps) initializer = Inr (False, None)"
| "isDefaultInitializable L BuiltinFloatType initializer =
     Inr (True, if initializer then Some (ZeroValueExpr BuiltinFloatType) else None)"
| "isDefaultInitializable L (BuiltinIntegerType w) initializer =
     Inr (True, if initializer then Some (ZeroValueExpr (BuiltinIntegerType w)) else None)"
| "isDefaultInitializable L BuiltinObjCPointerType initializer =
     Inr (True, if initializer then Some (ZeroValueExpr BuiltinObjCPointerType) else None)"
| "isDefaultInitializable L BuiltinObjectPointerType initializer =
     Inr (True, if initializer then Some (ZeroValueExpr BuiltinObjectPointerType) else None)"
| "isDefaultInitializable L BuiltinRawPointerType initializer =
     Inr (True, if initializer then Some (ZeroValueExpr BuiltinRawPointerType) else None)"
| "isDefaultInitializable L (BuiltinVectorType t n) initializer =
     Inr (True, if initializer then Some (ZeroValueExpr (BuiltinVectorType t n)) else None)"
| "isDefaultInitializable L (TupleType flds) initializer =
     (case defaultInitializeFields L flds initializer [] [] of
        Inl e \<Rightarrow> Inl e
      | Inr (ok, eltInits, eltNames) \<Rightarrow>
          if \<not> ok then Inr (False, None)
          else if initializer
          then (if length eltInits = 1 \<and> eltNames ! 0 = []
                then Inr (True, Some (eltInits ! 0))
                else Inr (True, Some (TupleExpr eltInits eltNames)))
          else Inr (True, None))"
| "isDefaultInitializable L (FunctionType a r) initializer = Inr (False, None)"
| "isDefaultInitializable L (LValueType t) initializer = Inr (False, None)"
| "isDefaultInitializable L (PolymorphicFunctionType a r) initializer = Inr (False, None)"
| "isDefaultInitializable L (MetaTypeType t) initializer = Inr (False, None)"
| "isDefaultInitializable L (ModuleType n) initializer = Inr (False, None)"
| "isDefaultInitializable L (ReferenceStorageType referent own) initializer =
     isDefaultInitializable L referent initializer"
| "isDefaultInitializable L ErrorType initializer = Inr (False, None)"
| "isDefaultInitializable L (TypeVariableType n) initializer = Inr (False, None)"
| "defaultInitializeFields L [] initializer eltInits eltNames = Inr (True, eltInits, eltNames)"
| "defaultInitializeFields L (TupleTypeElt name t hasInit # flds) initializer eltInits eltNames =
     (if hasInit then Inl AssertionFailed
      else case isDefaultInitializable L t initializer of
             Inl e \<Rightarrow> Inl e
           | Inr (ok, eltInit) \<Rightarrow>
               if \<not> ok then Inr (False, eltInits, eltNames)
               else if initializer
               then (case eltInit of
                       None \<Rightarrow> Inl AssertionFailed
                     | Some e \<Rightarrow>
                         defaultInitializeFields L flds initializer
                           (eltInits @ [e]) (eltNames @ [name]))
               else defaultInitializeFields L flds initializer eltInits eltNames)"

section \<open>Diagnostics and the collaborators of the checker\<close>

text \<open>
  A diagnostic is its identifier and its arguments. Only the diagnostics that this file
  reports are recorded; what the collaborators report themselves is not.
\<close>

datatype diag_id =
    duplicate_inheritance | multiple_inheritance | extension_class_inheritance
  | non_class_inheritance | superclass_not_first | inheritance_from_non_protocol_or_class
  | inheritance_from_non_protocol | var_type_not_materializable | while_converting_var_init
  | decl_no_default_init | invalid_decl_attribute | operator_not_func
  | custom_operator_addressof | invalid_objc_decl | objc_protocol_not_class_protocol
  | invalid_ownership_decl | invalid_ownership_opaque_type | invalid_ownership_type
  | invalid_iboutlet | invalid_ibaction_decl | invalid_ibaction_result
  | infix_not_an_operator | invalid_infix_input | postfix_not_an_operator
  | invalid_postfix_input | prefix_not_an_operator | invalid_prefix_input
  | assignment_without_byref | conversion_not_instance_method | conversion_params
  | force_inline_not_function | force_inline_curry_not_supported
  | force_inline_generic_not_supported | class_protocol_not_protocol

datatype diag_arg = TypeArg ty | OwnershipArg ownership | NameArg Identifier

datatype diagnostic = Diagnostic diag_id "diag_arg list"


subsection \<open>Queries on types\<close>

fun isExistentialType :: "ty \<Rightarrow> bool" where
  "isExistentialType (ProtocolType _) = True"
| "isExistentialType (ProtocolCompositionType _) = True"
| "isExistentialType _ = False"

text \<open>\<^verbatim>\<open>isExistentialType(protocols)\<close>: the protocols of an existential type.\<close>

fun existentialProtocols :: "ty \<Rightarrow> Identifier list" where
  "existentialProtocols (ProtocolType p) = [p]"
| "existentialProtocols (ProtocolCompositionType ps) = ps"
| "existentialProtocols _ = []"

fun getClassOrBoundGenericClass :: "ty \<Rightarrow> Identifier option" where
  "getClassOrBoundGenericClass (ClassType c) = Some c"
| "getClassOrBoundGenericClass (BoundGenericClassType c _) = Some c"
| "getClassOrBoundGenericClass _ = None"






section \<open>Attribute validation\<close>




definition diagnose :: "diag_id \<Rightarrow> diag_arg list \<Rightarrow> diagnostic list \<Rightarrow> diagnostic list" where
  "diagnose d args ds = ds @ [Diagnostic d args]"




definition setAttrs ::
  "(decl_attributes \<Rightarrow> decl_attributes) \<Rightarrow> 'a value_decl_scheme \<Rightarrow> 'a value_decl_scheme" where
  "setAttrs f VD = VD\<lparr>vd_attrs := f (vd_attrs VD)\<rparr>"






















section \<open>Implicit constructors\<close>












text \<open>
  \<^verbatim>\<open>Pattern::collectVariables\<close> belongs to the AST library: the variables of the named
  patterns inside a pattern, from left to right.
\<close>

fun collectVariables :: "pattern \<Rightarrow> value_decl list"
and collectVariablesElts :: "tuple_pattern_elt list \<Rightarrow> value_decl list" where
  "collectVariables (TuplePattern _ elts) = collectVariablesElts elts"
| "collectVariables (ParenPattern _ p) = collectVariables p"
| "collectVariables (TypedPattern _ p _) = collectVariables p"
| "collectVariables (NominalTypePattern _ p) = collectVariables p"
| "collectVariables (UnionElementPattern _ None) = []"
| "collectVariables (UnionElementPattern _ (Some p)) = collectVariables p"
| "collectVariables (VarPattern _ p) = collectVariables p"
| "collectVariables (NamedPattern _ var) = [var]"
| "collectVariables (AnyPattern _) = []"
| "collectVariables (IsaPattern _) = []"
| "collectVariables (ExprPattern _) = []"
| "collectVariablesElts [] = []"
| "collectVariablesElts (TuplePatternElt p init # elts) =
     collectVariables p @ collectVariablesElts elts"






section \<open>Inheritance clauses and conformances\<close>

text \<open>
  A \<^verbatim>\<open>ProtocolConformance *\<close>: null, or the witnesses (a requirement and the declaration
  that satisfies it) and the conformances to the inherited protocols. Declarations and
  protocols are referred to by name, where the source holds pointers.
\<close>

datatype conformance =
    NullConformance
  | ProtocolConformance (getWitnesses: "(Identifier \<times> Identifier) list")
      (getInheritedConformances: "(Identifier \<times> conformance) list")

text \<open>
  A type declaration or an extension, as far as its inheritance clause is concerned: the
  clause as written, and the protocols, superclass and conformances recorded on it.
\<close>

record type_decl =
  td_kind :: decl_kind
  td_isGenericParameter :: bool
  td_context :: decl_context
  td_declaredType :: ty
  td_inherited :: "typeloc list"
  td_protocols :: "Identifier list"
  td_superclass :: "ty option"
  td_conformances :: "conformance list"

text \<open>
  Modelled from the spec: \<^verbatim>\<open>TypeChecker::validateType\<close>, which is not in this file. The
  validator resolves a syntactic type reference or fails; \<open>resolve\<close> is that resolution, a
  function of the reference as written. The result is whether validation failed, and the
  location with the resolved type.
\<close>

definition validateType :: "(Identifier \<Rightarrow> ty option) \<Rightarrow> typeloc \<Rightarrow> bool \<times> typeloc" where
  "validateType resolve loc =
     (case resolve (tl_repr loc) of
        None \<Rightarrow> (True, loc)
      | Some t \<Rightarrow> (False, loc\<lparr>tl_type := Some t\<rparr>))"

definition isNominalTypeDecl :: "decl_kind \<Rightarrow> bool" where
  "isNominalTypeDecl k = (k \<in> {UnionDeclKind, StructDeclKind, ClassDeclKind, ProtocolDeclKind})"

definition canInheritClass :: "type_decl \<Rightarrow> bool" where
  "canInheritClass decl =
     (if td_kind decl = ClassDeclKind then True
      else if td_kind decl = TypeAliasDeclKind then td_isGenericParameter decl
      else False)"

text \<open>
  \<^verbatim>\<open>alreadyCheckedInheritanceClause\<close>. The final \<^verbatim>\<open>cast<TypeAliasDecl>\<close> asserts that a
  declaration that is neither an extension nor a nominal type is a type alias.
\<close>

definition alreadyCheckedInheritanceClause :: "type_decl \<Rightarrow> error + bool" where
  "alreadyCheckedInheritanceClause decl =
     (if td_kind decl = ExtensionDeclKind then Inr (td_protocols decl \<noteq> [])
      else if isNominalTypeDecl (td_kind decl)
      then (if td_protocols decl \<noteq> [] then Inr True
            else if td_kind decl = ClassDeclKind then Inr (td_superclass decl \<noteq> None)
            else Inr False)
      else if td_kind decl = TypeAliasDeclKind
      then (if td_protocols decl \<noteq> [] then Inr True
            else Inr (td_isGenericParameter decl \<and> td_superclass decl \<noteq> None))
      else Inl AssertionFailed)"

text \<open>
  The local variables of the loop of \<^verbatim>\<open>checkInheritanceClause\<close>: the superclass found,
  the protocols found (a set vector: in order of insertion, without repetition), the
  canonical types seen, and the diagnostics reported.
\<close>

record inheritance_state =
  superclassTy :: "ty option"
  allProtocols :: "Identifier list"
  inheritedTypes :: "ty list"
  reportedDiags :: "diagnostic list"

fun insertAll :: "Identifier list \<Rightarrow> Identifier list \<Rightarrow> Identifier list" where
  "insertAll [] vec = vec"
| "insertAll (p # ps) vec = insertAll ps (if p \<in> set vec then vec else vec @ [p])"

text \<open>
  One iteration of the loop, on the entry \<open>inherited\<close> at index \<open>i\<close>: the entry as the
  iteration leaves it, and the local variables.
\<close>

definition checkInherited ::
  "(Identifier \<Rightarrow> ty option) \<Rightarrow> type_decl \<Rightarrow> nat \<Rightarrow> typeloc \<Rightarrow> inheritance_state
    \<Rightarrow> error + (typeloc \<times> inheritance_state)" where
  "checkInherited resolve decl i inherited st =
     (case validateType resolve inherited of
        (True, loc) \<Rightarrow> Inr (setInvalidType loc, st)
      | (False, loc) \<Rightarrow>
          (case tl_type loc of
             None \<Rightarrow> Inl NullDereference
           | Some inheritedTy \<Rightarrow>
               if inheritedTy \<in> set (inheritedTypes st)
               then Inr (loc, st\<lparr>reportedDiags :=
                                   diagnose duplicate_inheritance [TypeArg inheritedTy]
                                     (reportedDiags st)\<rparr>)
               else let st1 = st\<lparr>inheritedTypes := inheritedTypes st @ [inheritedTy]\<rparr> in
                 if isExistentialType inheritedTy
                 then Inr (loc, st1\<lparr>allProtocols :=
                                      insertAll (existentialProtocols inheritedTy) (allProtocols st1)\<rparr>)
                 else if getClassOrBoundGenericClass inheritedTy \<noteq> None
                 then (case superclassTy st1 of
                         Some superclass \<Rightarrow>
                           Inr (loc, st1\<lparr>reportedDiags :=
                                  diagnose multiple_inheritance
                                    [TypeArg superclass, TypeArg inheritedTy] (reportedDiags st1)\<rparr>)
                       | None \<Rightarrow>
                           if \<not> canInheritClass decl
                           then Inr (loc, st1\<lparr>reportedDiags :=
                                  diagnose
                                    (if td_kind decl = ExtensionDeclKind
                                     then extension_class_inheritance else non_class_inheritance)
                                    [TypeArg (td_declaredType decl), TypeArg inheritedTy]
                                    (reportedDiags st1)\<rparr>)
                           else Inr (loc, st1\<lparr>superclassTy := Some inheritedTy,
                                  reportedDiags :=
                                    (if i > 0
                                     then diagnose superclass_not_first [TypeArg inheritedTy]
                                            (reportedDiags st1)
                                     else reportedDiags st1)\<rparr>))
                 else if inheritedTy = ErrorType then Inr (loc, st1)
                 else Inr (loc, st1\<lparr>reportedDiags :=
                        diagnose
                          (if canInheritClass decl then inheritance_from_non_protocol_or_class
                           else inheritance_from_non_protocol)
                          [TypeArg inheritedTy] (reportedDiags st1)\<rparr>)))"

text \<open>The loop, from index \<open>i\<close> over the entries that are left.\<close>

fun checkInheritedFrom ::
  "(Identifier \<Rightarrow> ty option) \<Rightarrow> type_decl \<Rightarrow> nat \<Rightarrow> typeloc list \<Rightarrow> inheritance_state
    \<Rightarrow> error + (typeloc list \<times> inheritance_state)" where
  "checkInheritedFrom resolve decl i [] st = Inr ([], st)"
| "checkInheritedFrom resolve decl i (inherited # rest) st =
     (case checkInherited resolve decl i inherited st of
        Inl e \<Rightarrow> Inl e
      | Inr (loc, st') \<Rightarrow>
          (case checkInheritedFrom resolve decl (Suc i) rest st' of
             Inl e \<Rightarrow> Inl e
           | Inr (locs, st'') \<Rightarrow> Inr (loc # locs, st'')))"

text \<open>
  \<^verbatim>\<open>checkInheritanceClause\<close>: the declaration with what was recorded on it, and the
  diagnostics reported.
\<close>

definition checkInheritanceClause ::
  "(Identifier \<Rightarrow> ty option) \<Rightarrow> type_decl \<Rightarrow> error + (type_decl \<times> diagnostic list)" where
  "checkInheritanceClause resolve decl =
     (case alreadyCheckedInheritanceClause decl of
        Inl e \<Rightarrow> Inl e
      | Inr True \<Rightarrow> Inr (decl, [])
      | Inr False \<Rightarrow>
          (case checkInheritedFrom resolve decl 0 (td_inherited decl)
                  \<lparr>superclassTy = None, allProtocols = [], inheritedTypes = [],
                   reportedDiags = []\<rparr> of
             Inl e \<Rightarrow> Inl e
           | Inr (inheritedClause, st) \<Rightarrow>
               let decl1 = decl\<lparr>td_inherited := inheritedClause\<rparr> in
               if allProtocols st = [] \<and> superclassTy st = None
               then Inr (decl1, reportedDiags st)
               else if td_kind decl = ExtensionDeclKind
               then (if superclassTy st \<noteq> None then Inl AssertionFailed
                     else Inr (decl1\<lparr>td_protocols := allProtocols st\<rparr>, reportedDiags st))
               else let decl2 = decl1\<lparr>td_protocols := allProtocols st\<rparr> in
                 (case (case superclassTy st of
                          None \<Rightarrow> Inr decl2
                        | Some t \<Rightarrow>
                            if td_kind decl = ClassDeclKind \<or> td_kind decl = TypeAliasDeclKind
                            then Inr (decl2\<lparr>td_superclass := Some t\<rparr>)
                            else Inl AssertionFailed) of
                    Inl e \<Rightarrow> Inl e
                  | Inr decl3 \<Rightarrow>
                      if td_kind decl = ProtocolDeclKind
                         \<or> (td_kind decl = TypeAliasDeclKind
                             \<and> (dc_declKind (td_context decl) = Some ProtocolDeclKind
                                 \<or> td_isGenericParameter decl))
                      then Inr (decl3\<lparr>td_conformances :=
                                         replicate (length (allProtocols st)) NullConformance\<rparr>,
                                reportedDiags st)
                      else Inr (decl3, reportedDiags st))))"

subsection \<open>Explicit conformances\<close>

text \<open>
  The local variables of \<^verbatim>\<open>gatherExplicitConformances\<close>, and the conformances recorded in
  the AST context (protocols recorded for this declaration).
\<close>

record gather_state =
  knownProtocols :: "Identifier set"
  gatheredProtocols :: "Identifier list"
  gatheredConformances :: "conformance list"
  recordedConformances :: "Identifier list"

text \<open>
  The inner loop, over the protocols of one inherited existential type. The conformance
  checker \<open>conformsToProtocol\<close> answers whether the type conforms and gives the conformance,
  which may be null.
\<close>

fun gatherProtocols ::
  "(ty \<Rightarrow> Identifier \<Rightarrow> bool \<times> conformance) \<Rightarrow> type_decl \<Rightarrow> ty \<Rightarrow> Identifier list
    \<Rightarrow> gather_state \<Rightarrow> gather_state" where
  "gatherProtocols conformsToProtocol D T [] g = g"
| "gatherProtocols conformsToProtocol D T (proto # protocols) g =
     gatherProtocols conformsToProtocol D T protocols
       (if proto \<notin> knownProtocols g
        then (case conformsToProtocol T proto of
                (conforms, conformance) \<Rightarrow>
                  g\<lparr>knownProtocols := insert proto (knownProtocols g),
                    recordedConformances :=
                      (if conforms \<and> (isNominalTypeDecl (td_kind D)
                                      \<or> td_kind D = ExtensionDeclKind)
                       then recordedConformances g @ [proto]
                       else recordedConformances g),
                    gatheredProtocols := gatheredProtocols g @ [proto],
                    gatheredConformances := gatheredConformances g @ [conformance]\<rparr>)
        else g)"

text \<open>The outer loop, over the inheritance clause; the type of an entry is dereferenced.\<close>

fun gatherInherited ::
  "(ty \<Rightarrow> Identifier \<Rightarrow> bool \<times> conformance) \<Rightarrow> type_decl \<Rightarrow> ty \<Rightarrow> typeloc list
    \<Rightarrow> gather_state \<Rightarrow> error + gather_state" where
  "gatherInherited conformsToProtocol D T [] g = Inr g"
| "gatherInherited conformsToProtocol D T (inherited # rest) g =
     (case tl_type inherited of
        None \<Rightarrow> Inl NullDereference
      | Some t \<Rightarrow>
          gatherInherited conformsToProtocol D T rest
            (if isExistentialType t
             then gatherProtocols conformsToProtocol D T (existentialProtocols t) g
             else g))"

text \<open>
  \<^verbatim>\<open>gatherExplicitConformances\<close>: the declaration with its protocols and conformances
  set, and the protocols recorded in the AST context.
\<close>

definition gatherExplicitConformances ::
  "(ty \<Rightarrow> Identifier \<Rightarrow> bool \<times> conformance) \<Rightarrow> type_decl \<Rightarrow> ty
    \<Rightarrow> error + (type_decl \<times> Identifier list)" where
  "gatherExplicitConformances conformsToProtocol D T =
     (case gatherInherited conformsToProtocol D T (td_inherited D)
             \<lparr>knownProtocols = {}, gatheredProtocols = [], gatheredConformances = [],
              recordedConformances = []\<rparr> of
        Inl e \<Rightarrow> Inl e
      | Inr g \<Rightarrow>
          (case (if length (td_protocols D) = length (gatheredProtocols g)
                 then (if td_protocols D = gatheredProtocols g then Inr D
                       else Inl AssertionFailed)
                 else Inr (D\<lparr>td_protocols := gatheredProtocols g\<rparr>)) of
             Inl e \<Rightarrow> Inl e
           | Inr D1 \<Rightarrow>
               Inr (D1\<lparr>td_conformances := gatheredConformances g\<rparr>, recordedConformances g)))"

subsection \<open>ObjC conformances\<close>

text \<open>
  \<^verbatim>\<open>checkObjCConformance\<close> and its loop over the inherited conformances. The state is the
  ObjC flag of every declaration, protocols included: \<^verbatim>\<open>isObjC()\<close> reads it and
  \<^verbatim>\<open>setIsObjC(true)\<close> sets it.
\<close>

fun setIsObjC :: "(Identifier \<times> Identifier) list \<Rightarrow> (Identifier \<Rightarrow> bool) \<Rightarrow> (Identifier \<Rightarrow> bool)" where
  "setIsObjC [] isObjC = isObjC"
| "setIsObjC ((requirement, witness) # mappings) isObjC =
     setIsObjC mappings (isObjC(witness := True))"

fun checkObjCConformance ::
    "Identifier \<Rightarrow> conformance \<Rightarrow> (Identifier \<Rightarrow> bool) \<Rightarrow> (Identifier \<Rightarrow> bool)"
and checkObjCInherited ::
    "(Identifier \<times> conformance) list \<Rightarrow> (Identifier \<Rightarrow> bool) \<Rightarrow> (Identifier \<Rightarrow> bool)" where
  "checkObjCConformance protocol NullConformance isObjC = isObjC"
| "checkObjCConformance protocol (ProtocolConformance witnesses inheritedConformances) isObjC =
     checkObjCInherited inheritedConformances
       (if isObjC protocol then setIsObjC witnesses isObjC else isObjC)"
| "checkObjCInherited [] isObjC = isObjC"
| "checkObjCInherited ((protocol, conformance) # inheritedConformances) isObjC =
     checkObjCInherited inheritedConformances (checkObjCConformance protocol conformance isObjC)"

text \<open>\<^verbatim>\<open>checkObjCConformances\<close> asserts that the two arrays have the same size.\<close>

fun checkObjCEach ::
  "Identifier list \<Rightarrow> conformance list \<Rightarrow> (Identifier \<Rightarrow> bool) \<Rightarrow> (Identifier \<Rightarrow> bool)" where
  "checkObjCEach (p # protocols) (c # conformances) isObjC =
     checkObjCEach protocols conformances (checkObjCConformance p c isObjC)"
| "checkObjCEach _ _ isObjC = isObjC"

definition checkObjCConformances ::
  "Identifier list \<Rightarrow> conformance list \<Rightarrow> (Identifier \<Rightarrow> bool) \<Rightarrow> error + (Identifier \<Rightarrow> bool)" where
  "checkObjCConformances protocols conformances isObjC =
     (if length protocols \<noteq> length conformances then Inl AssertionFailed
      else Inr (checkObjCEach protocols conformances isObjC))"

subsection \<open>The vocabulary of the statements about default initializability\<close>

text \<open>
  A declaration found by constructor lookup \<^emph>\<open>accepts an empty argument list\<close> when it is a
  constructor whose argument type is a tuple every field of which has a default initializer.
\<close>

fun acceptsEmptyArgumentList :: "decl \<Rightarrow> bool" where
  "acceptsEmptyArgumentList (ConstructorDecl ctor) =
     (case getArgumentType ctor of
        Some (TupleType flds) \<Rightarrow> list_all elt_hasInit flds
      | _ \<Rightarrow> False)"
| "acceptsEmptyArgumentList _ = False"

text \<open>A constructor has an argument type once its argument pattern has been checked.\<close>

fun hasArgumentType :: "decl \<Rightarrow> bool" where
  "hasArgumentType (ConstructorDecl ctor) = (getArgumentType ctor \<noteq> None)"
| "hasArgumentType _ = True"

text \<open>The kinds of type for which the switch breaks to the constructor lookup.\<close>

fun looksForConstructors :: "ty \<Rightarrow> bool" where
  "looksForConstructors (ArchetypeType _) = True"
| "looksForConstructors (BoundGenericStructType _ _) = True"
| "looksForConstructors (BoundGenericUnionType _ _) = True"
| "looksForConstructors (UnionType _) = True"
| "looksForConstructors (StructType _) = True"
| "looksForConstructors _ = False"

subsection \<open>Sample declarations\<close>

definition localContext :: decl_context where
  "localContext = \<lparr>dc_isTypeContext = False, dc_isModuleContext = False,
     dc_declKind = Some FuncDeclKind, dc_declaredType = None, dc_hasGenericParams = False\<rparr>"

definition typeContext :: "decl_kind \<Rightarrow> ty \<Rightarrow> decl_context" where
  "typeContext k t = \<lparr>dc_isTypeContext = True, dc_isModuleContext = False,
     dc_declKind = Some k, dc_declaredType = Some t, dc_hasGenericParams = False\<rparr>"

text \<open>
  A checked constructor of the struct \<open>s\<close> whose parameters are the given tuple fields.
\<close>

definition checkedParameter :: "Identifier \<Rightarrow> tuple_type_elt \<Rightarrow> tuple_pattern_elt" where
  "checkedParameter s elt =
     TuplePatternElt
       (TypedPattern (Some (elt_type elt))
          (NamedPattern (Some (elt_type elt))
             (newDecl VarDeclKind (elt_name elt) (Some (elt_type elt))
                (typeContext ConstructorDeclKind (StructType s))))
          (withoutLoc (elt_type elt)))
       (if elt_hasInit elt then Some (OtherExpr 0) else None)"

definition checkedConstructor :: "Identifier \<Rightarrow> tuple_type_elt list \<Rightarrow> constructor_decl" where
  "checkedConstructor s flds =
     value_decl.extend
       (newDecl ConstructorDeclKind ''constructor''
          (Some (FunctionType (MetaTypeType (StructType s))
                   (FunctionType (TupleType flds) (StructType s))))
          (typeContext StructDeclKind (StructType s)))
       (constructor_decl.fields
          (TuplePattern (Some (TupleType flds)) (map (checkedParameter s) flds))
          (newDecl VarDeclKind ''this'' (Some (StructType s))
             (typeContext ConstructorDeclKind (StructType s)))
          None False
          (Some (FunctionType (StructType s) (FunctionType (TupleType flds) (StructType s)))))"

text \<open>
  A lookup in which \<^verbatim>\<open>Int\<close> and \<^verbatim>\<open>String\<close> are structs with one constructor without
  parameters (and \<^verbatim>\<open>Int\<close> one more, from a value), \<^verbatim>\<open>Pair\<close> has two constructors that
  accept an empty argument list, and nothing else has constructors.
\<close>

definition sampleLookup :: "ty \<Rightarrow> decl list" where
  "sampleLookup t =
     (if t = StructType ''Int''
      then [ConstructorDecl (checkedConstructor ''Int'' []),
            ConstructorDecl (checkedConstructor ''Int''
              [TupleTypeElt ''value'' (BuiltinIntegerType 64) False])]
      else if t = StructType ''String''
      then [ConstructorDecl (checkedConstructor ''String'' [])]
      else if t = StructType ''Pair''
      then [ConstructorDecl (checkedConstructor ''Pair'' []),
            ConstructorDecl (checkedConstructor ''Pair''
              [TupleTypeElt ''first'' (StructType ''Int'') True])]
      else [])"




subsection \<open>The vocabulary of the statements about attribute validation\<close>






















subsection \<open>The vocabulary of the statements about implicit constructors\<close>

























subsection \<open>The vocabulary of the statements about inheritance and conformances\<close>

text \<open>The kinds of declaration that have an inheritance clause.\<close>

definition hasInheritanceClause :: "decl_kind \<Rightarrow> bool" where
  "hasInheritanceClause k =
     (k \<in> {ExtensionDeclKind, UnionDeclKind, StructDeclKind, ClassDeclKind, ProtocolDeclKind,
           TypeAliasDeclKind})"

text \<open>An entry of an inheritance clause after validation: resolved, or marked invalid.\<close>

definition validated :: "(Identifier \<Rightarrow> ty option) \<Rightarrow> typeloc \<Rightarrow> typeloc" where
  "validated resolve loc =
     (case resolve (tl_repr loc) of
        None \<Rightarrow> setInvalidType loc
      | Some t \<Rightarrow> loc\<lparr>tl_type := Some t\<rparr>)"

text \<open>
  Every conformance inside a conformance, itself included, with the protocol it is the
  conformance to.
\<close>

fun nestedConformances :: "Identifier \<Rightarrow> conformance \<Rightarrow> (Identifier \<times> conformance) list"
and nestedInherited :: "(Identifier \<times> conformance) list \<Rightarrow> (Identifier \<times> conformance) list" where
  "nestedConformances protocol NullConformance = []"
| "nestedConformances protocol (ProtocolConformance witnesses inheritedConformances) =
     (protocol, ProtocolConformance witnesses inheritedConformances)
       # nestedInherited inheritedConformances"
| "nestedInherited [] = []"
| "nestedInherited ((protocol, conformance) # inheritedConformances) =
     nestedConformances protocol conformance @ nestedInherited inheritedConformances"

text \<open>
  A type declaration of the given kind with the given clause, nothing recorded yet, and a
  resolution of the names of the samples: two classes, two protocols, \<^verbatim>\<open>Int\<close>.
\<close>

definition written :: "Identifier \<Rightarrow> typeloc" where
  "written n = \<lparr>tl_repr = n, tl_type = None\<rparr>"

definition typeDeclOf :: "decl_kind \<Rightarrow> Identifier \<Rightarrow> Identifier list \<Rightarrow> type_decl" where
  "typeDeclOf k n clause = \<lparr>td_kind = k, td_isGenericParameter = False,
     td_context = localContext,
     td_declaredType = (if k = ClassDeclKind then ClassType n else StructType n),
     td_inherited = map written clause, td_protocols = [], td_superclass = None,
     td_conformances = []\<rparr>"

definition sampleResolve :: "Identifier \<Rightarrow> ty option" where
  "sampleResolve n =
     (if n = ''Base'' then Some (ClassType ''Base'')
      else if n = ''Other'' then Some (ClassType ''Other'')
      else if n = ''Printable'' then Some (ProtocolType ''Printable'')
      else if n = ''Hashable'' then Some (ProtocolType ''Hashable'')
      else if n = ''Int'' then Some (StructType ''Int'')
      else None)"

section \<open>Properties of default initializability\<close>

lemma findDefaultConstructor_count:
  "list_all hasArgumentType ms \<Longrightarrow>
   findDefaultConstructor ms found =
     Inr (let n = length (filter acceptsEmptyArgumentList ms) in
          if found then (if n = 0 then Some True else None)
          else (if n = 0 then Some False else if n = 1 then Some True else None))"
proof (induction ms found rule: findDefaultConstructor.induct)
  case (1 found)
  then show ?case by simp
next
  case (2 ctor members found)
  show ?case
  proof (cases "getArgumentType ctor")
    case None
    with 2 show ?thesis by simp
  next
    case (Some t)
    show ?thesis
    proof (cases t)
      case (TupleType flds)
      show ?thesis
      proof (cases "list_ex (\<lambda>elt. \<not> elt_hasInit elt) flds")
        case True
        with 2 Some TupleType show ?thesis
          by (simp add: list_ex_iff list_all_iff)
      next
        case False
        with 2 Some TupleType show ?thesis
          by (cases found) (simp_all add: list_ex_iff list_all_iff Let_def)
      qed
    qed (use 2 Some in \<open>simp_all\<close>)
  qed
qed simp_all

lemma lookForDefaultConstructor_count:
  assumes "list_all hasArgumentType (L t)"
  shows "lookForDefaultConstructor L t initializer =
     Inr (length (filter acceptsEmptyArgumentList (L t)) = 1,
          if initializer \<and> length (filter acceptsEmptyArgumentList (L t)) = 1
          then Some (CallExpr (MetatypeExpr (MetaTypeType t)) (TupleExpr [] []))
          else None)"
proof (cases "L t = []")
  case True
  then show ?thesis by (simp add: lookForDefaultConstructor_def)
next
  case False
  then show ?thesis
    by (simp add: lookForDefaultConstructor_def findDefaultConstructor_count [OF assms] Let_def)
qed

text \<open>
  Claim C3. For a type of archetype, struct, union or bound generic struct or union kind, whose
  visible constructors have been checked, \<^verbatim>\<open>isDefaultInitializable\<close> returns true exactly
  when one and only one of the declarations found by constructor lookup accepts an empty
  argument list; with none or with more than one it returns false. When it returns true and an
  initializer was asked for, the initializer is the call of the type's metatype with the
  empty tuple; otherwise none is produced.
\<close>

theorem default_initializable_by_constructor:
  assumes "looksForConstructors t" and "list_all hasArgumentType (L t)"
  shows "isDefaultInitializable L t initializer =
     Inr (length (filter acceptsEmptyArgumentList (L t)) = 1,
          if initializer \<and> length (filter acceptsEmptyArgumentList (L t)) = 1
          then Some (CallExpr (MetatypeExpr (MetaTypeType t)) (TupleExpr [] []))
          else None)"
  using assms by (cases t) (simp_all add: lookForDefaultConstructor_count)

theorem default_initializable_by_constructor_witness:
  "isDefaultInitializable sampleLookup (StructType ''Int'') True =
     Inr (True, Some (CallExpr (MetatypeExpr (MetaTypeType (StructType ''Int''))) (TupleExpr [] [])))
   \<and> isDefaultInitializable sampleLookup (StructType ''Pair'') True = Inr (False, None)
   \<and> isDefaultInitializable sampleLookup (StructType ''Void'') True = Inr (False, None)"
proof -
  have a: "list_all hasArgumentType (sampleLookup t)" for t
    by (simp add: sampleLookup_def checkedConstructor_def getArgumentType_def
        value_decl.extend_def constructor_decl.fields_def)
  have b: "length (filter acceptsEmptyArgumentList (sampleLookup (StructType ''Int''))) = 1"
    by (simp add: sampleLookup_def checkedConstructor_def getArgumentType_def
        value_decl.extend_def constructor_decl.fields_def)
  have c: "length (filter acceptsEmptyArgumentList (sampleLookup (StructType ''Pair''))) = 2"
    by (simp add: sampleLookup_def checkedConstructor_def getArgumentType_def
        value_decl.extend_def constructor_decl.fields_def)
  have d: "length (filter acceptsEmptyArgumentList (sampleLookup (StructType ''Void''))) = 0"
    by (simp add: sampleLookup_def)
  show ?thesis
    using default_initializable_by_constructor [of "StructType ''Int''" sampleLookup True]
      default_initializable_by_constructor [of "StructType ''Pair''" sampleLookup True]
      default_initializable_by_constructor [of "StructType ''Void''" sampleLookup True]
      a b c d
    by simp
qed

lemma lookForDefaultConstructor_initializer:
  "lookForDefaultConstructor L t w = Inr (b, e) \<Longrightarrow> (e = None) = (\<not> (b \<and> w))"
  by (auto simp: lookForDefaultConstructor_def Let_def split: if_splits sum.splits option.splits)

lemma isDefaultInitializable_initializer:
  "isDefaultInitializable L t w = Inr (b, e) \<Longrightarrow> (e = None) = (\<not> (b \<and> w))"
  and "defaultInitializeFields L flds w eltInits eltNames = r \<Longrightarrow> True"
proof (induction L t w and L flds w eltInits eltNames arbitrary: b e and r
       rule: isDefaultInitializable_defaultInitializeFields.induct)
  case (17 L flds initializer)
  then show ?case
    by (auto split: sum.splits prod.splits if_splits)
qed (auto dest: lookForDefaultConstructor_initializer split: if_splits)

text \<open>The loop over the fields of a tuple, when no field has an initializer and every
  field's check returns.\<close>

lemma defaultInitializeFields_result:
  assumes "\<forall>elt\<in>set flds. \<not> elt_hasInit elt \<and> (\<exists>r. isDefaultInitializable L (elt_type elt) w = Inr r)"
  shows "\<exists>ok is ns. defaultInitializeFields L flds w eltInits eltNames = Inr (ok, is, ns)
     \<and> ok = (\<forall>elt\<in>set flds. \<exists>e. isDefaultInitializable L (elt_type elt) w = Inr (True, e))
     \<and> (ok \<and> w \<longrightarrow> (\<exists>es. map (\<lambda>elt. isDefaultInitializable L (elt_type elt) w) flds
                           = map (\<lambda>e. Inr (True, Some e)) es
                      \<and> is = eltInits @ es \<and> ns = eltNames @ map elt_name flds))
     \<and> (ok \<and> \<not> w \<longrightarrow> is = eltInits \<and> ns = eltNames)"
  using assms
proof (induction flds arbitrary: eltInits eltNames)
  case Nil
  show ?case by (rule exI [of _ True]) simp
next
  case (Cons elt flds)
  obtain name t hasInit where elt: "elt = TupleTypeElt name t hasInit" by (cases elt)
  from Cons.prems elt have noInit: "\<not> hasInit" by simp
  from Cons.prems elt obtain b e where r: "isDefaultInitializable L t w = Inr (b, e)"
    by fastforce
  have rest: "\<forall>elt\<in>set flds. \<not> elt_hasInit elt \<and> (\<exists>r. isDefaultInitializable L (elt_type elt) w = Inr r)"
    using Cons.prems by simp
  show ?case
  proof (cases b)
    case False
    with elt noInit r show ?thesis by auto
  next
    case True
    note b = True
    show ?thesis
    proof (cases w)
      case False
      from Cons.IH [OF rest, of eltInits eltNames] elt noInit r b False
      show ?thesis by auto
    next
      case True
      with isDefaultInitializable_initializer(1) [OF r] b obtain x where x: "e = Some x" by auto
      from Cons.IH [OF rest, of "eltInits @ [x]" "eltNames @ [name]"]
      obtain ok "is" ns where ih:
        "defaultInitializeFields L flds w (eltInits @ [x]) (eltNames @ [name]) = Inr (ok, is, ns)
         \<and> ok = (\<forall>elt\<in>set flds. \<exists>e. isDefaultInitializable L (elt_type elt) w = Inr (True, e))
         \<and> (ok \<and> w \<longrightarrow> (\<exists>es. map (\<lambda>elt. isDefaultInitializable L (elt_type elt) w) flds
                           = map (\<lambda>e. Inr (True, Some e)) es
                      \<and> is = (eltInits @ [x]) @ es \<and> ns = (eltNames @ [name]) @ map elt_name flds))
         \<and> (ok \<and> \<not> w \<longrightarrow> is = eltInits @ [x] \<and> ns = eltNames @ [name])"
        by blast
      from ih have 1:
        "defaultInitializeFields L flds w (eltInits @ [x]) (eltNames @ [name]) = Inr (ok, is, ns)"
        by (rule conjunct1)
      from ih have 2:
        "ok = (\<forall>elt\<in>set flds. \<exists>e. isDefaultInitializable L (elt_type elt) w = Inr (True, e))"
        by (rule conjunct2 [THEN conjunct1])
      from ih True have 3:
        "ok \<longrightarrow> (\<exists>es. map (\<lambda>elt. isDefaultInitializable L (elt_type elt) w) flds
                           = map (\<lambda>e. Inr (True, Some e)) es
                      \<and> is = (eltInits @ [x]) @ es \<and> ns = (eltNames @ [name]) @ map elt_name flds)"
        by blast
      have "ok \<longrightarrow> (\<exists>es. map (\<lambda>elt. isDefaultInitializable L (elt_type elt) w) (elt # flds)
                           = map (\<lambda>e. Inr (True, Some e)) es
                      \<and> is = eltInits @ es \<and> ns = eltNames @ map elt_name (elt # flds))"
      proof
        assume ok
        with 3 obtain es where
          "map (\<lambda>elt. isDefaultInitializable L (elt_type elt) w) flds
             = map (\<lambda>e. Inr (True, Some e)) es"
          "is = (eltInits @ [x]) @ es" "ns = (eltNames @ [name]) @ map elt_name flds"
          by blast
        then have "map (\<lambda>elt. isDefaultInitializable L (elt_type elt) w) (elt # flds)
                           = map (\<lambda>e. Inr (True, Some e)) (x # es)
                      \<and> is = eltInits @ (x # es) \<and> ns = eltNames @ map elt_name (elt # flds)"
          using elt r b x by simp
        then show "\<exists>es. map (\<lambda>elt. isDefaultInitializable L (elt_type elt) w) (elt # flds)
                           = map (\<lambda>e. Inr (True, Some e)) es
                      \<and> is = eltInits @ es \<and> ns = eltNames @ map elt_name (elt # flds)"
          by blast
      qed
      then show ?thesis
        using 1 2 elt noInit r b x True by simp
    qed
  qed
qed


text \<open>
  Claim C4. For a tuple type none of whose fields has an initializer and each of whose
  fields' checks returns, \<^verbatim>\<open>isDefaultInitializable\<close> returns true exactly when it returns
  true for the type of every field. When it does and an initializer was asked for, the
  initializer is the tuple expression of the fields' initializers under the fields' names,
  or, when the tuple has a single field and that field is unnamed, that field's initializer
  itself; otherwise no initializer is produced. For a protocol type and for a protocol
  composition type it returns false.
\<close>

theorem default_initializable_tuple_and_existential:
  "((\<forall>elt\<in>set flds. \<not> elt_hasInit elt
        \<and> (\<exists>r. isDefaultInitializable L (elt_type elt) initializer = Inr r)) \<longrightarrow>
     (\<exists>e. isDefaultInitializable L (TupleType flds) initializer =
            Inr (\<forall>elt\<in>set flds. \<exists>e'. isDefaultInitializable L (elt_type elt) initializer = Inr (True, e'), e)
        \<and> (if initializer
              \<and> (\<forall>elt\<in>set flds. \<exists>e'. isDefaultInitializable L (elt_type elt) initializer = Inr (True, e'))
            then \<exists>es. map (\<lambda>elt. isDefaultInitializable L (elt_type elt) initializer) flds
                         = map (\<lambda>e. Inr (True, Some e)) es
                   \<and> e = Some (if length flds = 1 \<and> elt_name (hd flds) = [] then hd es
                               else TupleExpr es (map elt_name flds))
            else e = None)))
   \<and> isDefaultInitializable L (ProtocolType p) initializer = Inr (False, None)
   \<and> isDefaultInitializable L (ProtocolCompositionType ps) initializer = Inr (False, None)"
proof (intro conjI impI)
  let ?all = "\<forall>elt\<in>set flds. \<exists>e'. isDefaultInitializable L (elt_type elt) initializer = Inr (True, e')"
  assume "\<forall>elt\<in>set flds. \<not> elt_hasInit elt
        \<and> (\<exists>r. isDefaultInitializable L (elt_type elt) initializer = Inr r)"
  from defaultInitializeFields_result [OF this, of "[]" "[]"]
  obtain ok "is" ns where res:
    "defaultInitializeFields L flds initializer [] [] = Inr (ok, is, ns)
     \<and> ok = ?all
     \<and> (ok \<and> initializer \<longrightarrow>
       (\<exists>es. map (\<lambda>elt. isDefaultInitializable L (elt_type elt) initializer) flds
                = map (\<lambda>e. Inr (True, Some e)) es \<and> is = [] @ es \<and> ns = [] @ map elt_name flds))
     \<and> (ok \<and> \<not> initializer \<longrightarrow> is = [] \<and> ns = [])"
    by blast
  from res have loop: "defaultInitializeFields L flds initializer [] [] = Inr (ok, is, ns)"
    by (rule conjunct1)
  from res have ok: "ok = ?all"
    by (rule conjunct2 [THEN conjunct1])
  from res have yes: "ok \<and> initializer \<longrightarrow>
       (\<exists>es. map (\<lambda>elt. isDefaultInitializable L (elt_type elt) initializer) flds
                = map (\<lambda>e. Inr (True, Some e)) es \<and> is = es \<and> ns = map elt_name flds)"
    by (simp only: append_Nil, blast)
  show "\<exists>e. isDefaultInitializable L (TupleType flds) initializer = Inr (?all, e)
        \<and> (if initializer \<and> ?all
            then \<exists>es. map (\<lambda>elt. isDefaultInitializable L (elt_type elt) initializer) flds
                         = map (\<lambda>e. Inr (True, Some e)) es
                   \<and> e = Some (if length flds = 1 \<and> elt_name (hd flds) = [] then hd es
                               else TupleExpr es (map elt_name flds))
            else e = None)"
  proof (cases "ok \<and> initializer")
    case False
    with loop ok show ?thesis by auto
  next
    case True
    with yes obtain es where
      es: "map (\<lambda>elt. isDefaultInitializable L (elt_type elt) initializer) flds
             = map (\<lambda>e. Inr (True, Some e)) es"
      and "is": "is = es" and ns: "ns = map elt_name flds"
      by blast
    from es have len: "length es = length flds"
      by (metis length_map)
    have sole: "length flds = 1 \<Longrightarrow> es ! 0 = hd es \<and> map elt_name flds ! 0 = elt_name (hd flds)"
      using len by (cases flds; cases es) simp_all
    have "isDefaultInitializable L (TupleType flds) initializer =
            Inr (True, Some (if length flds = 1 \<and> elt_name (hd flds) = [] then hd es
                             else TupleExpr es (map elt_name flds)))"
      using loop True "is" ns len sole by auto
    with True ok es show ?thesis by auto
  qed
qed simp_all

theorem default_initializable_tuple_and_existential_witness:
  "isDefaultInitializable sampleLookup
     (TupleType [TupleTypeElt [] (StructType ''Int'') False,
                 TupleTypeElt [] (StructType ''String'') False]) True =
     Inr (True, Some (TupleExpr
       [CallExpr (MetatypeExpr (MetaTypeType (StructType ''Int''))) (TupleExpr [] []),
        CallExpr (MetatypeExpr (MetaTypeType (StructType ''String''))) (TupleExpr [] [])]
       [[], []]))
   \<and> isDefaultInitializable sampleLookup
       (TupleType [TupleTypeElt [] (StructType ''Int'') False,
                   TupleTypeElt ''p'' (ProtocolType ''Printable'') False]) True = Inr (False, None)
   \<and> isDefaultInitializable sampleLookup
       (TupleType [TupleTypeElt [] (StructType ''Int'') False]) True =
     Inr (True, Some (CallExpr (MetatypeExpr (MetaTypeType (StructType ''Int''))) (TupleExpr [] [])))
   \<and> isDefaultInitializable sampleLookup (ProtocolType ''Printable'') True = Inr (False, None)"
proof -
  have int: "isDefaultInitializable sampleLookup (StructType ''Int'') True =
      Inr (True, Some (CallExpr (MetatypeExpr (MetaTypeType (StructType ''Int''))) (TupleExpr [] [])))"
    by (simp add: lookForDefaultConstructor_def sampleLookup_def checkedConstructor_def
        getArgumentType_def value_decl.extend_def constructor_decl.fields_def)
  have str: "isDefaultInitializable sampleLookup (StructType ''String'') True =
      Inr (True, Some (CallExpr (MetatypeExpr (MetaTypeType (StructType ''String''))) (TupleExpr [] [])))"
    by (simp add: lookForDefaultConstructor_def sampleLookup_def checkedConstructor_def
        getArgumentType_def value_decl.extend_def constructor_decl.fields_def)
  note inst = default_initializable_tuple_and_existential [where L = sampleLookup and initializer = True]
  from inst [of "[TupleTypeElt [] (StructType ''Int'') False,
                 TupleTypeElt [] (StructType ''String'') False]"] int str
  have 1: "isDefaultInitializable sampleLookup
     (TupleType [TupleTypeElt [] (StructType ''Int'') False,
                 TupleTypeElt [] (StructType ''String'') False]) True =
     Inr (True, Some (TupleExpr
       [CallExpr (MetatypeExpr (MetaTypeType (StructType ''Int''))) (TupleExpr [] []),
        CallExpr (MetatypeExpr (MetaTypeType (StructType ''String''))) (TupleExpr [] [])]
       [[], []]))"
    by auto
  from inst [of "[TupleTypeElt [] (StructType ''Int'') False,
                 TupleTypeElt ''p'' (ProtocolType ''Printable'') False]"] int
  have 2: "isDefaultInitializable sampleLookup
       (TupleType [TupleTypeElt [] (StructType ''Int'') False,
                   TupleTypeElt ''p'' (ProtocolType ''Printable'') False]) True = Inr (False, None)"
    by auto
  from inst [of "[TupleTypeElt [] (StructType ''Int'') False]"] int
  have 3: "isDefaultInitializable sampleLookup
       (TupleType [TupleTypeElt [] (StructType ''Int'') False]) True =
     Inr (True, Some (CallExpr (MetatypeExpr (MetaTypeType (StructType ''Int''))) (TupleExpr [] [])))"
    by auto
  from 1 2 3 inst [of "[]" "''Printable''"] show ?thesis by simp
qed

section \<open>Properties of attribute validation\<close>



subsection \<open>Each block as a function of what the declaration violates\<close>















lemma setAttrs_id: "f (vd_attrs VD) = vd_attrs VD \<Longrightarrow> setAttrs f VD = VD"
  by (simp add: setAttrs_def)

























section \<open>Properties of the implicit constructors\<close>






















end
